theory Spec2Isabelle
  imports Main "HOL-Library.AList" "HOL-Library.Sublist"
begin

section \<open>Paths\<close>

text \<open>
  A \<^verbatim>\<open>pathlib.Path\<close> relative to the working directory is the list of its
  components; the empty list is the working directory itself (\<^verbatim>\<open>Path('.')\<close>).
  Strings are byte strings: text is taken as already encoded in UTF-8.
\<close>

type_synonym path = "string list"

fun join :: "string \<Rightarrow> string list \<Rightarrow> string" where
  "join sep [] = []"
| "join sep [x] = x"
| "join sep (x # y # ys) = x @ sep @ join sep (y # ys)"

text \<open>\<^verbatim>\<open>str(path)\<close>\<close>

definition str_path :: "path \<Rightarrow> string" where
  "str_path p = (if p = [] then ''.'' else join ''/'' p)"

text \<open>\<^verbatim>\<open>path.parent\<close> and \<^verbatim>\<open>path.name\<close>\<close>

definition parent :: "path \<Rightarrow> path" where
  "parent p = butlast p"

definition name_of :: "path \<Rightarrow> string" where
  "name_of p = (if p = [] then [] else last p)"

text \<open>Python exceptions, all of them subclasses of \<^verbatim>\<open>Exception\<close>.\<close>

datatype exn =
    ValueError string
  | CalledProcessError int "string list" string string
  | FileNotFoundError path
  | FileExistsError path
  | NotADirectoryError path
  | IsADirectoryError path
  | KeyError string
  | OtherException string

datatype 'a outcome = Return 'a | Raise exn

text \<open>\<^verbatim>\<open>path.relative_to(root)\<close>\<close>

definition relative_to :: "path \<Rightarrow> path \<Rightarrow> path outcome" where
  "relative_to p root =
     (if prefix root p then Return (drop (length root) p)
      else Raise (ValueError (str_path p @ '' is not in the subpath of '' @ str_path root)))"

text \<open>\<^verbatim>\<open>name.rfind(c)\<close>: the index of the last occurrence, \<open>None\<close> for Python's -1.\<close>

fun rfind :: "char \<Rightarrow> string \<Rightarrow> nat option" where
  "rfind c [] = None"
| "rfind c (x # xs) =
     (case rfind c xs of
        Some i \<Rightarrow> Some (Suc i)
      | None \<Rightarrow> if x = c then Some 0 else None)"

text \<open>
  \<^verbatim>\<open>PurePath.suffix\<close>, on the final component: the part from the last dot on, when that
  dot is neither the first nor the last character of the name.
\<close>

definition suffix_of :: "string \<Rightarrow> string" where
  "suffix_of name =
     (case rfind (CHR ''.'') name of
        None \<Rightarrow> []
      | Some i \<Rightarrow> if 0 < i \<and> i < length name - 1 then drop i name else [])"

text \<open>\<^verbatim>\<open>path.with_suffix(suffix)\<close>\<close>

definition with_suffix :: "path \<Rightarrow> string \<Rightarrow> path outcome" where
  "with_suffix p sfx =
     (if (sfx \<noteq> [] \<and> hd sfx \<noteq> CHR ''.'') \<or> sfx = ''.'' \<or> CHR ''/'' \<in> set sfx
      then Raise (ValueError (''Invalid suffix '' @ sfx))
      else if name_of p = [] then Raise (ValueError (str_path p @ '' has an empty name''))
      else
        let name = name_of p;
            old_suffix = suffix_of name;
            name' = (if old_suffix = [] then name @ sfx
                     else take (length name - length old_suffix) name @ sfx)
        in Return (butlast p @ [name']))"

text \<open>
  \<^verbatim>\<open>fnmatch\<close> on a name, for patterns made of literal characters, \<^verbatim>\<open>*\<close> and
  \<^verbatim>\<open>?\<close>, compared case-sensitively (the POSIX flavour of \<^verbatim>\<open>pathlib\<close>).
\<close>

fun fnmatch :: "string \<Rightarrow> string \<Rightarrow> bool" where
  "fnmatch [] [] = True"
| "fnmatch [] (c # cs) = False"
| "fnmatch (p # ps) [] = (p = CHR ''*'' \<and> fnmatch ps [])"
| "fnmatch (p # ps) (c # cs) =
     (if p = CHR ''*'' then fnmatch ps (c # cs) \<or> fnmatch (p # ps) cs
      else if p = CHR ''?'' then fnmatch ps cs
      else p = c \<and> fnmatch ps cs)"

text \<open>\<^verbatim>\<open>str.strip()\<close> with no argument removes leading and trailing ASCII whitespace.\<close>

definition is_space :: "char \<Rightarrow> bool" where
  "is_space c = (c \<in> set [CHR 0x09, CHR 0x0A, CHR 0x0B, CHR 0x0C, CHR 0x0D,
                           CHR 0x1C, CHR 0x1D, CHR 0x1E, CHR 0x1F, CHR 0x20])"

definition strip :: "string \<Rightarrow> string" where
  "strip s = rev (dropWhile is_space (rev (dropWhile is_space s)))"

section \<open>The file system\<close>

text \<open>
  The file system below the working directory: an association list from paths to
  entries, in directory-listing order. An entry is visible only when every proper
  ancestor is a directory, as a path lookup of the operating system resolves it.
\<close>

datatype entry = File string | Directory

type_synonym fsys = "(path \<times> entry) list"

text \<open>\<^verbatim>\<open>os.stat\<close>: the entry at a path given leaf first, or the error of the lookup.\<close>

fun stat_rev :: "fsys \<Rightarrow> path \<Rightarrow> exn + entry" where
  "stat_rev fs [] = Inr Directory"
| "stat_rev fs (n # up) =
     (case stat_rev fs up of
        Inl e \<Rightarrow> Inl e
      | Inr (File c) \<Rightarrow> Inl (NotADirectoryError (rev (n # up)))
      | Inr Directory \<Rightarrow>
          (case map_of fs (rev (n # up)) of
             None \<Rightarrow> Inl (FileNotFoundError (rev (n # up)))
           | Some e \<Rightarrow> Inr e))"

definition stat :: "fsys \<Rightarrow> path \<Rightarrow> exn + entry" where
  "stat fs p = stat_rev fs (rev p)"

definition node_at :: "fsys \<Rightarrow> path \<Rightarrow> entry option" where
  "node_at fs p = (case stat fs p of Inl e \<Rightarrow> None | Inr e \<Rightarrow> Some e)"

text \<open>\<^verbatim>\<open>path.exists()\<close> and \<^verbatim>\<open>path.is_dir()\<close>\<close>

definition exists :: "fsys \<Rightarrow> path \<Rightarrow> bool" where
  "exists fs p = (node_at fs p \<noteq> None)"

definition is_dir :: "fsys \<Rightarrow> path \<Rightarrow> bool" where
  "is_dir fs p = (node_at fs p = Some Directory)"

text \<open>\<^verbatim>\<open>os.mkdir(path)\<close>\<close>

definition os_mkdir :: "path \<Rightarrow> fsys \<Rightarrow> exn + fsys" where
  "os_mkdir p fs =
     (case stat fs p of
        Inr e \<Rightarrow> Inl (FileExistsError p)
      | Inl (FileNotFoundError q) \<Rightarrow>
          if q = p then Inr (AList.update p Directory fs) else Inl (FileNotFoundError p)
      | Inl e \<Rightarrow> Inl e)"

text \<open>
  \<^verbatim>\<open>Path.mkdir(parents=False, exist_ok=...)\<close>: an error of \<^verbatim>\<open>os.mkdir\<close> is passed
  on unless \<^verbatim>\<open>exist_ok\<close> is set and the path is a directory.
\<close>

definition mkdir_single :: "bool \<Rightarrow> path \<Rightarrow> fsys \<Rightarrow> exn + fsys" where
  "mkdir_single exist_ok p fs =
     (case os_mkdir p fs of
        Inr fs' \<Rightarrow> Inr fs'
      | Inl e \<Rightarrow> if \<not> exist_ok \<or> \<not> is_dir fs p then Inl e else Inr fs)"

text \<open>
  \<^verbatim>\<open>Path.mkdir(parents=True, exist_ok=...)\<close>: when \<^verbatim>\<open>os.mkdir\<close> finds no parent,
  the parent is made first (with \<^verbatim>\<open>parents=True, exist_ok=True\<close>), then the path
  itself without \<^verbatim>\<open>parents\<close>.
\<close>

function mkdir_parents :: "bool \<Rightarrow> path \<Rightarrow> fsys \<Rightarrow> exn + fsys" where
  "mkdir_parents exist_ok p fs =
     (case os_mkdir p fs of
        Inr fs' \<Rightarrow> Inr fs'
      | Inl (FileNotFoundError q) \<Rightarrow>
          if p = [] then Inl (FileNotFoundError q)
          else (case mkdir_parents True (butlast p) fs of
                  Inl e \<Rightarrow> Inl e
                | Inr fs1 \<Rightarrow> mkdir_single exist_ok p fs1)
      | Inl e \<Rightarrow> if \<not> exist_ok \<or> \<not> is_dir fs p then Inl e else Inr fs)"
  by pat_completeness auto
termination
  by (relation "measure (\<lambda>(ok, p, fs). length p)") auto

declare mkdir_parents.simps [simp del]

text \<open>
  \<^verbatim>\<open>open(path, "w")\<close> creates the file or truncates it; \<^verbatim>\<open>file.write(text)\<close>
  followed by closing the file leaves \<open>text\<close> as its content.
\<close>

definition open_w :: "path \<Rightarrow> fsys \<Rightarrow> exn + fsys" where
  "open_w p fs =
     (case stat fs p of
        Inr Directory \<Rightarrow> Inl (IsADirectoryError p)
      | Inr (File c) \<Rightarrow> Inr (AList.update p (File []) fs)
      | Inl (FileNotFoundError q) \<Rightarrow>
          if q = p then Inr (AList.update p (File []) fs) else Inl (FileNotFoundError p)
      | Inl e \<Rightarrow> Inl e)"

definition file_write :: "path \<Rightarrow> string \<Rightarrow> fsys \<Rightarrow> fsys" where
  "file_write p txt fs = AList.update p (File txt) fs"

text \<open>\<^verbatim>\<open>path.stat().st_size\<close>\<close>

definition st_size :: "fsys \<Rightarrow> path \<Rightarrow> exn + nat" where
  "st_size fs p =
     (case stat fs p of
        Inl e \<Rightarrow> Inl e
      | Inr (File c) \<Rightarrow> Inr (length c)
      | Inr Directory \<Rightarrow> Inr 0)"

text \<open>
  \<^verbatim>\<open>root.rglob(pattern)\<close> for a pattern of one component: every visible entry
  strictly below \<open>root\<close>, regular file or directory, whose name matches; nothing when
  \<open>root\<close> is not a directory. The order is the listing order of the file system.
\<close>

definition rglob :: "fsys \<Rightarrow> path \<Rightarrow> string \<Rightarrow> path list" where
  "rglob fs root pattern =
     (if is_dir fs root
      then filter (\<lambda>p. strict_prefix root p \<and> exists fs p \<and> fnmatch pattern (name_of p))
             (remdups (map fst fs))
      else [])"

section \<open>The world outside the script\<close>

text \<open>
  The external collaborators are parameters: what executing a command line does (its
  exit status, captured output and effect on the file system, or the error of
  starting it), what \<^verbatim>\<open>whisper.load_model\<close> returns, and what
  \<^verbatim>\<open>model.transcribe\<close> returns for a file name on a file system (a dictionary, or
  an exception). Loading the model and transcribing leave the file system as it is.
\<close>

datatype proc = Completed int string string | Spawn_error exn

record 'm env =
  run_cmd :: "string list \<Rightarrow> fsys \<Rightarrow> proc \<times> fsys"
  load_model :: "string \<Rightarrow> exn + 'm"
  transcribe :: "'m \<Rightarrow> string \<Rightarrow> fsys \<Rightarrow> exn + (string \<Rightarrow> string option)"

text \<open>
  The state is the file system and the sequence of observable events so far: a printed
  line (an f-string, its pieces in order; \<^verbatim>\<open>str(e)\<close> and numbers are kept
  unrendered), a command run as a subprocess, a model load, a transcribe call with the
  handle and file name passed, and a recursive enumeration of a directory.
\<close>

datatype frag = Lit string | Str_exn exn | Num nat

datatype 'm event =
    Print "frag list"
  | Run "string list"
  | Load_model string
  | Transcribe 'm string
  | Rglob path string

record 'm world =
  files :: fsys
  events :: "'m event list"

definition emit :: "'m event \<Rightarrow> 'm world \<Rightarrow> 'm world" where
  "emit ev w = w\<lparr>events := events w @ [ev]\<rparr>"

definition py_print :: "frag list \<Rightarrow> 'm world \<Rightarrow> 'm world" where
  "py_print line w = emit (Print line) w"

text \<open>
  \<^verbatim>\<open>subprocess.run(cmd, check=True, capture_output=True, text=True)\<close>: the captured
  standard output and standard error, or \<^verbatim>\<open>CalledProcessError\<close> on a nonzero exit
  status.
\<close>

definition subprocess_run ::
  "'m env \<Rightarrow> string list \<Rightarrow> 'm world \<Rightarrow> (string \<times> string) outcome \<times> 'm world" where
  "subprocess_run env cmd w =
     (let (p, fs') = run_cmd env cmd (files w);
          w' = emit (Run cmd) (w\<lparr>files := fs'\<rparr>)
      in case p of
           Spawn_error e \<Rightarrow> (Raise e, w')
         | Completed returncode out err \<Rightarrow>
             if returncode \<noteq> 0 then (Raise (CalledProcessError returncode cmd out err), w')
             else (Return (out, err), w'))"

section \<open>extract_audio\<close>

definition ffmpeg_command :: "path \<Rightarrow> path \<Rightarrow> string list" where
  "ffmpeg_command input_file output_file =
     [''ffmpeg'', ''-i'', str_path input_file, ''-vn'', ''-acodec'', ''pcm_s16le'',
      ''-ar'', ''16000'', ''-ac'', ''1'', str_path output_file, ''-y'']"

definition probe_command :: "path \<Rightarrow> string list" where
  "probe_command input_file =
     [''ffprobe'', ''-v'', ''error'', ''-show_entries'', ''format=duration'', ''-of'',
      ''default=noprint_wrappers=1:nokey=1'', str_path input_file]"

text \<open>The two \<^verbatim>\<open>except\<close> clauses: each prints and raises the exception again.\<close>

definition extract_audio_except ::
  "path \<Rightarrow> string list \<Rightarrow> exn \<Rightarrow> 'm world \<Rightarrow> unit outcome \<times> 'm world" where
  "extract_audio_except input_file command e w =
     (case e of
        CalledProcessError returncode cmd out err \<Rightarrow>
          (Raise e,
           py_print [Lit ''Error output: '', Lit err]
             (py_print [Lit ''Command: '', Lit (join '' '' command)]
                (py_print [Lit ''Error extracting audio from '', Lit (str_path input_file)] w)))
      | ValueError msg \<Rightarrow> (Raise e, py_print [Lit ''Error: '', Str_exn e] w)
      | _ \<Rightarrow> (Raise e, w))"

definition extract_audio ::
  "'m env \<Rightarrow> path \<Rightarrow> path \<Rightarrow> 'm world \<Rightarrow> unit outcome \<times> 'm world" where
  "extract_audio env input_file output_file w =
     (let command = ffmpeg_command input_file output_file in
      case subprocess_run env (probe_command input_file) w of
        (Raise e, w1) \<Rightarrow> extract_audio_except input_file command e w1
      | (Return probe_result, w1) \<Rightarrow>
          if strip (fst probe_result) = []
          then extract_audio_except input_file command
                 (ValueError (''Unable to read file information for '' @ str_path input_file)) w1
          else
            (case subprocess_run env command w1 of
               (Raise e, w2) \<Rightarrow> extract_audio_except input_file command e w2
             | (Return result, w2) \<Rightarrow>
                 (Return (),
                  py_print [Lit ''FFmpeg output: '', Lit (fst result)]
                    (py_print [Lit ''Audio extracted successfully: '', Lit (str_path output_file)]
                       w2))))"

section \<open>transcribe_audio\<close>

text \<open>Lines 84 to 88: the check that the transcript exists after the write.\<close>

definition report_transcript :: "path \<Rightarrow> 'm world \<Rightarrow> unit outcome \<times> 'm world" where
  "report_transcript txt_path w =
     (if exists (files w) txt_path
      then
        (let w1 = py_print [Lit ''Transcription saved to: '', Lit (str_path txt_path)] w
         in case st_size (files w1) txt_path of
              Inl e \<Rightarrow> (Raise e, w1)
            | Inr n \<Rightarrow> (Return (), py_print [Lit ''File size: '', Num n, Lit '' bytes''] w1))
      else (Return (), py_print [Lit ''Error: Failed to create '', Lit (str_path txt_path)] w))"

text \<open>The body of the \<^verbatim>\<open>try\<close> statement.\<close>

definition transcribe_audio_try ::
  "'m env \<Rightarrow> path \<Rightarrow> path \<Rightarrow> 'm \<Rightarrow> 'm world \<Rightarrow> unit outcome \<times> 'm world" where
  "transcribe_audio_try env audio_path txt_path model w =
     (let w0 = emit (Transcribe model (str_path audio_path)) w in
      case transcribe env model (str_path audio_path) (files w0) of
        Inl e \<Rightarrow> (Raise e, w0)
      | Inr result \<Rightarrow>
          (case open_w txt_path (files w0) of
             Inl e \<Rightarrow> (Raise e, w0)
           | Inr fs1 \<Rightarrow>
               (case result ''text'' of
                  None \<Rightarrow> (Raise (KeyError ''text''), w0\<lparr>files := fs1\<rparr>)
                | Some t \<Rightarrow> report_transcript txt_path (w0\<lparr>files := file_write txt_path t fs1\<rparr>))))"

definition transcribe_audio ::
  "'m env \<Rightarrow> path \<Rightarrow> path \<Rightarrow> 'm \<Rightarrow> 'm world \<Rightarrow> unit outcome \<times> 'm world" where
  "transcribe_audio env audio_path txt_path model w =
     (case transcribe_audio_try env audio_path txt_path model w of
        (Raise e, w1) \<Rightarrow> (Return (), py_print [Lit ''Error in transcribe_audio: '', Str_exn e] w1)
      | (Return u, w1) \<Rightarrow> (Return (), w1))"

section \<open>process_videos\<close>

text \<open>Lines 112 and 113: the audio path of a video file.\<close>

definition audio_path_of :: "path \<Rightarrow> path \<Rightarrow> path \<Rightarrow> path outcome" where
  "audio_path_of videos_folder audio_folder video_file =
     (case relative_to video_file videos_folder of
        Raise e \<Rightarrow> Raise e
      | Return relative_path \<Rightarrow>
          (case with_suffix relative_path ''.wav'' of
             Raise e \<Rightarrow> Raise e
           | Return rel \<Rightarrow> Return (audio_folder @ rel)))"

text \<open>
  Lines 112 to 116: the audio path, its parent directories made, the progress line
  printed. None of this is inside the \<^verbatim>\<open>try\<close>.
\<close>

definition video_target ::
  "path \<Rightarrow> path \<Rightarrow> path \<Rightarrow> 'm world \<Rightarrow> path outcome \<times> 'm world" where
  "video_target videos_folder audio_folder video_file w =
     (case audio_path_of videos_folder audio_folder video_file of
        Raise e \<Rightarrow> (Raise e, w)
      | Return audio_path \<Rightarrow>
          (case mkdir_parents True (parent audio_path) (files w) of
             Inl e \<Rightarrow> (Raise e, w)
           | Inr fs1 \<Rightarrow>
               (Return audio_path,
                py_print [Lit (CHR 0x0A # ''Extracting audio from ''),
                          Lit (str_path (drop (length videos_folder) video_file)), Lit ''...'']
                  (w\<lparr>files := fs1\<rparr>))))"

text \<open>One iteration of the loop.\<close>

definition process_video ::
  "'m env \<Rightarrow> path \<Rightarrow> path \<Rightarrow> path \<Rightarrow> 'm world \<Rightarrow> unit outcome \<times> 'm world" where
  "process_video env videos_folder audio_folder video_file w =
     (case video_target videos_folder audio_folder video_file w of
        (Raise e, w1) \<Rightarrow> (Raise e, w1)
      | (Return audio_path, w1) \<Rightarrow>
          (case extract_audio env video_file audio_path w1 of
             (Raise e, w2) \<Rightarrow>
               (Return (),
                py_print [Lit ''Error processing '', Lit (name_of video_file), Lit '': '', Str_exn e]
                  w2)
           | (Return u, w2) \<Rightarrow> (Return (), w2)))"

fun process_videos_loop ::
  "'m env \<Rightarrow> path \<Rightarrow> path \<Rightarrow> path list \<Rightarrow> 'm world \<Rightarrow> unit outcome \<times> 'm world" where
  "process_videos_loop env videos_folder audio_folder [] w = (Return (), w)"
| "process_videos_loop env videos_folder audio_folder (video_file # rest) w =
     (case process_video env videos_folder audio_folder video_file w of
        (Raise e, w1) \<Rightarrow> (Raise e, w1)
      | (Return u, w1) \<Rightarrow> process_videos_loop env videos_folder audio_folder rest w1)"


section \<open>process_audio_files\<close>

text \<open>Lines 140 and 141: the transcript path of an audio file.\<close>

definition txt_path_of :: "path \<Rightarrow> path \<Rightarrow> path \<Rightarrow> path outcome" where
  "txt_path_of audio_folder results_folder audio_file =
     (case relative_to audio_file audio_folder of
        Raise e \<Rightarrow> Raise e
      | Return relative_path \<Rightarrow>
          (case with_suffix relative_path ''.txt'' of
             Raise e \<Rightarrow> Raise e
           | Return rel \<Rightarrow> Return (results_folder @ rel)))"

text \<open>Lines 140 to 144.\<close>

definition audio_target ::
  "path \<Rightarrow> path \<Rightarrow> path \<Rightarrow> 'm world \<Rightarrow> path outcome \<times> 'm world" where
  "audio_target audio_folder results_folder audio_file w =
     (case txt_path_of audio_folder results_folder audio_file of
        Raise e \<Rightarrow> (Raise e, w)
      | Return txt_path \<Rightarrow>
          (case mkdir_parents True (parent txt_path) (files w) of
             Inl e \<Rightarrow> (Raise e, w)
           | Inr fs1 \<Rightarrow>
               (Return txt_path,
                py_print [Lit (CHR 0x0A # ''Transcribing ''),
                          Lit (str_path (drop (length audio_folder) audio_file)), Lit ''...'']
                  (w\<lparr>files := fs1\<rparr>))))"

definition process_audio_file ::
  "'m env \<Rightarrow> path \<Rightarrow> path \<Rightarrow> 'm \<Rightarrow> path \<Rightarrow> 'm world \<Rightarrow> unit outcome \<times> 'm world" where
  "process_audio_file env audio_folder results_folder model audio_file w =
     (case audio_target audio_folder results_folder audio_file w of
        (Raise e, w1) \<Rightarrow> (Raise e, w1)
      | (Return txt_path, w1) \<Rightarrow> transcribe_audio env audio_file txt_path model w1)"

fun process_audio_loop ::
  "'m env \<Rightarrow> path \<Rightarrow> path \<Rightarrow> 'm \<Rightarrow> path list \<Rightarrow> 'm world \<Rightarrow> unit outcome \<times> 'm world" where
  "process_audio_loop env audio_folder results_folder model [] w = (Return (), w)"
| "process_audio_loop env audio_folder results_folder model (audio_file # rest) w =
     (case process_audio_file env audio_folder results_folder model audio_file w of
        (Raise e, w1) \<Rightarrow> (Raise e, w1)
      | (Return u, w1) \<Rightarrow> process_audio_loop env audio_folder results_folder model rest w1)"


section \<open>main\<close>

text \<open>Lines 196 to 199: the report of the transcripts found.\<close>

fun report_loop :: "path \<Rightarrow> path list \<Rightarrow> 'm world \<Rightarrow> unit outcome \<times> 'm world" where
  "report_loop results_folder [] w = (Return (), w)"
| "report_loop results_folder (txt_file # rest) w =
     (case relative_to txt_file results_folder of
        Raise e \<Rightarrow> (Raise e, w)
      | Return rel \<Rightarrow>
          (case st_size (files w) txt_file of
             Inl e \<Rightarrow> (Raise e, w)
           | Inr n \<Rightarrow>
               report_loop results_folder rest
                 (py_print [Lit ''- '', Lit (str_path rel), Lit '' (Size: '', Num n,
                            Lit '' bytes)''] w)))"

definition check_results :: "path \<Rightarrow> 'm world \<Rightarrow> unit outcome \<times> 'm world" where
  "check_results results_folder w =
     (let txt_files = rglob (files w) results_folder ''*.txt'';
          w1 = emit (Rglob results_folder ''*.txt'') w
      in report_loop results_folder txt_files
           (py_print [Lit (CHR 0x0A # ''Found ''), Num (length txt_files),
                      Lit '' text files in results folder''] w1))"




definition videos_folder :: path where "videos_folder = [''videos'']"
definition audio_folder :: path where "audio_folder = [''audio'']"
definition results_folder :: path where "results_folder = [''results'']"



section \<open>Example worlds\<close>

text \<open>A small tree with a nested video, a video named only by its extension, and audio
  left by an earlier run.\<close>

definition mirror_fs :: fsys where
  "mirror_fs =
     [([''videos''], Directory),
      ([''videos'', ''sub''], Directory),
      ([''videos'', ''sub'', ''b.mp4''], File ''B''),
      ([''videos'', ''.mp4''], File ''H''),
      ([''audio''], Directory),
      ([''audio'', ''sub''], Directory),
      ([''audio'', ''sub'', ''b.wav''], File ''P'')]"

definition mirror_world :: "nat world" where
  "mirror_world = \<lparr>files = mirror_fs, events = []\<rparr>"

subsection \<open>A small run: four videos, one directory named like a video, audio left by an earlier run\<close>

definition demo_run :: "string list \<Rightarrow> fsys \<Rightarrow> proc \<times> fsys" where
  "demo_run cmd fs =
     (if cmd = probe_command [''videos'', ''a.mp4''] then (Completed 0 ''12.5'' [], fs)
      else if cmd = ffmpeg_command [''videos'', ''a.mp4''] [''audio'', ''a.wav'']
        then (Completed 0 [] ''done'', AList.update [''audio'', ''a.wav''] (File ''PCM-A'') fs)
      else if cmd = probe_command [''videos'', ''blank.mp4''] then (Completed 0 '' '' [], fs)
      else if cmd = probe_command [''videos'', ''bad.mp4'']
        then (Completed 1 [] ''Invalid data found'', fs)
      else if cmd = probe_command [''videos'', ''clips.mp4'']
        then (Completed 1 [] ''Is a directory'', fs)
      else if cmd = probe_command [''videos'', ''cut.mp4''] then (Completed 0 ''3.0'' [], fs)
      else if cmd = ffmpeg_command [''videos'', ''cut.mp4''] [''audio'', ''cut.wav'']
        then (Completed 1 [] ''Conversion failed'',
              AList.update [''audio'', ''cut.wav''] (File ''PARTIAL'') fs)
      else (Spawn_error (OtherException ''no such command''), fs))"

definition demo_transcribe :: "nat \<Rightarrow> string \<Rightarrow> fsys \<Rightarrow> exn + (string \<Rightarrow> string option)" where
  "demo_transcribe model name fs =
     (if name = ''audio/a.wav'' then Inr [''text'' \<mapsto> ''hello world'']
      else if name = ''audio/old.wav'' then Inr [''text'' \<mapsto> ''old words'']
      else Inl (OtherException ''cannot decode''))"

definition demo_env :: "nat env" where
  "demo_env = \<lparr>run_cmd = demo_run,
               load_model = (\<lambda>name. if name = ''base'' then Inr 7
                                      else Inl (OtherException ''unknown model'')),
               transcribe = demo_transcribe\<rparr>"

definition demo_fs :: fsys where
  "demo_fs =
     [([''videos''], Directory),
      ([''videos'', ''a.mp4''], File ''VIDEO-A''),
      ([''videos'', ''bad.mp4''], File ''GARBAGE''),
      ([''videos'', ''blank.mp4''], File []),
      ([''videos'', ''clips.mp4''], Directory),
      ([''videos'', ''cut.mp4''], File ''VIDEO-C''),
      ([''videos'', ''notes.MP4''], File ''VIDEO-N''),
      ([''audio''], Directory),
      ([''audio'', ''old.wav''], File ''PCM-O'')]"

definition demo_world :: "nat world" where
  "demo_world = \<lparr>files = demo_fs, events = []\<rparr>"




definition demo_audio_world :: "nat world" where
  "demo_audio_world =
     \<lparr>files = demo_fs @ [([''results''], Directory)],
      events = [Print [Lit (CHR 0x0A # ''Transcribing ''), Lit ''cut.wav'', Lit ''...'']]\<rparr>"

subsection \<open>Classes of events\<close>

definition appends :: "('m event \<Rightarrow> bool) \<Rightarrow> 'm world \<Rightarrow> 'm world \<Rightarrow> bool" where
  "appends P w w' = (\<exists>es. events w' = events w @ es \<and> list_all P es)"

fun is_print :: "'m event \<Rightarrow> bool" where
  "is_print (Print line) = True"
| "is_print ev = False"



subsection \<open>Phases of a run\<close>


definition transcription_step :: "'m event \<Rightarrow> bool" where
  "transcription_step ev =
     (case ev of
        Transcribe m name \<Rightarrow> True
      | Rglob root pat \<Rightarrow> root = audio_folder
      | _ \<Rightarrow> False)"

definition appends2 ::
  "('m event \<Rightarrow> bool) \<Rightarrow> ('m event \<Rightarrow> bool) \<Rightarrow> 'm world \<Rightarrow> 'm world \<Rightarrow> bool" where
  "appends2 P Q w w' =
     (\<exists>xs ys. events w' = events w @ xs @ ys \<and> list_all P xs \<and> list_all Q ys)"




subsection \<open>External commands that leave an entry in place\<close>


section \<open>Names and patterns\<close>

lemma fnmatch_literal:
  "CHR ''*'' \<notin> set ps \<Longrightarrow> CHR ''?'' \<notin> set ps \<Longrightarrow> fnmatch ps s \<longleftrightarrow> s = ps"
proof (induction ps arbitrary: s)
  case Nil
  then show ?case by (cases s) simp_all
next
  case (Cons p ps)
  then show ?case by (cases s) auto
qed

lemma fnmatch_star_literal:
  assumes "CHR ''*'' \<notin> set ps" and "CHR ''?'' \<notin> set ps"
  shows "fnmatch (CHR ''*'' # ps) s \<longleftrightarrow> (\<exists>pre. s = pre @ ps)"
proof (induction s)
  case Nil
  show ?case using fnmatch_literal [OF assms, of "[]"] by auto
next
  case (Cons c cs)
  have "fnmatch (CHR ''*'' # ps) (c # cs) \<longleftrightarrow> fnmatch ps (c # cs) \<or> fnmatch (CHR ''*'' # ps) cs"
    by simp
  also have "\<dots> \<longleftrightarrow> c # cs = ps \<or> (\<exists>pre. cs = pre @ ps)"
    using Cons.IH fnmatch_literal [OF assms, of "c # cs"] by simp
  also have "\<dots> \<longleftrightarrow> (\<exists>pre. c # cs = pre @ ps)"
    by (auto simp: Cons_eq_append_conv)
  finally show ?case .
qed



lemma rfind_append_nodot:
  "CHR ''.'' \<notin> set ext \<Longrightarrow> rfind (CHR ''.'') (stem @ CHR ''.'' # ext) = Some (length stem)"
proof (induction stem)
  case Nil
  have "rfind (CHR ''.'') ext = None" using Nil by (induction ext) auto
  then show ?case by simp
next
  case (Cons a stem)
  then show ?case by simp
qed

lemma suffix_of_ext:
  assumes "CHR ''.'' \<notin> set ext" "ext \<noteq> []"
  shows "suffix_of (stem @ CHR ''.'' # ext) = (if stem = [] then [] else CHR ''.'' # ext)"
  using assms by (simp add: suffix_of_def rfind_append_nodot)

lemma with_suffix_ext:
  assumes "CHR ''.'' \<notin> set ext" "ext \<noteq> []" "CHR ''/'' \<notin> set new" "new \<noteq> []"
  shows "with_suffix (d @ [stem @ CHR ''.'' # ext]) (CHR ''.'' # new) =
         Return (d @ [(if stem = [] then CHR ''.'' # ext else stem) @ CHR ''.'' # new])"
  using assms by (simp add: with_suffix_def name_of_def suffix_of_ext Let_def)

section \<open>Lookups and directory creation\<close>

lemma stat_Nil: "stat fs [] = Inr Directory"
  by (simp add: stat_def)

lemma stat_snoc:
  "stat fs (p @ [n]) =
     (case stat fs p of
        Inl e \<Rightarrow> Inl e
      | Inr (File c) \<Rightarrow> Inl (NotADirectoryError (p @ [n]))
      | Inr Directory \<Rightarrow>
          (case map_of fs (p @ [n]) of
             None \<Rightarrow> Inl (FileNotFoundError (p @ [n]))
           | Some e \<Rightarrow> Inr e))"
  by (simp add: stat_def split: sum.splits entry.splits option.splits)

lemma node_at_Nil: "node_at fs [] = Some Directory"
  by (simp add: node_at_def stat_Nil)

lemma node_at_snoc:
  "node_at fs (p @ [n]) =
     (case node_at fs p of Some Directory \<Rightarrow> map_of fs (p @ [n]) | _ \<Rightarrow> None)"
  by (simp add: node_at_def stat_snoc split: sum.splits entry.splits option.splits)

text \<open>A lookup only reads the entries at the prefixes of the path.\<close>

lemma stat_cong:
  "(\<And>q. prefix q p \<Longrightarrow> q \<noteq> [] \<Longrightarrow> map_of fs q = map_of fs' q) \<Longrightarrow> stat fs p = stat fs' p"
proof (induction p rule: rev_induct)
  case Nil
  show ?case by (simp add: stat_Nil)
next
  case (snoc n p)
  have "stat fs p = stat fs' p"
    by (rule snoc.IH) (simp add: snoc.prems)
  moreover have "map_of fs (p @ [n]) = map_of fs' (p @ [n])"
    by (rule snoc.prems) simp_all
  ultimately show ?case by (simp add: stat_snoc split: sum.splits entry.splits)
qed

lemma stat_update_other:
  "\<not> prefix q p \<Longrightarrow> stat (AList.update q v fs) p = stat fs p"
  by (rule stat_cong) (auto simp: update_conv')

lemma node_at_update_other:
  "\<not> prefix q p \<Longrightarrow> node_at (AList.update q v fs) p = node_at fs p"
  by (simp add: node_at_def stat_update_other)

lemma node_at_update_same:
  "p \<noteq> [] \<Longrightarrow> node_at fs (butlast p) = Some Directory \<Longrightarrow> node_at (AList.update p v fs) p = Some v"
proof -
  assume p: "p \<noteq> []" and d: "node_at fs (butlast p) = Some Directory"
  from p obtain q n where pq: "p = q @ [n]" by (metis rev_exhaust)
  have "node_at (AList.update p v fs) q = node_at fs q"
    by (rule node_at_update_other) (simp add: pq)
  with d pq show ?thesis by (simp add: node_at_snoc update_conv')
qed

text \<open>Errors of a lookup.\<close>

lemma stat_not_found_prefix: "stat fs p = Inl (FileNotFoundError q) \<Longrightarrow> prefix q p \<and> q \<noteq> []"
proof (induction p rule: rev_induct)
  case Nil
  then show ?case by (simp add: stat_Nil)
next
  case (snoc n p)
  then show ?case
    by (auto simp: stat_snoc split: sum.splits entry.splits option.splits)
qed

lemma stat_not_found_self:
  "stat fs p = Inl (FileNotFoundError p) \<Longrightarrow> p \<noteq> [] \<and> node_at fs (butlast p) = Some Directory \<and> map_of fs p = None"
proof (cases p rule: rev_cases)
  case Nil
  assume "stat fs p = Inl (FileNotFoundError p)"
  with Nil show ?thesis by (simp add: stat_Nil)
next
  case (snoc q n)
  assume a: "stat fs p = Inl (FileNotFoundError p)"
  have "stat fs q \<noteq> Inl (FileNotFoundError (q @ [n]))"
    using stat_not_found_prefix [of fs q "q @ [n]"] by auto
  with a snoc show ?thesis
    by (auto simp: stat_snoc node_at_def split: sum.splits entry.splits option.splits)
qed

lemma os_mkdir_Inr:
  assumes "os_mkdir p fs = Inr fs'"
  shows "fs' = AList.update p Directory fs \<and> p \<noteq> [] \<and>
         node_at fs (butlast p) = Some Directory \<and> node_at fs p = None"
proof -
  from assms have s: "stat fs p = Inl (FileNotFoundError p)" and f: "fs' = AList.update p Directory fs"
    by (auto simp: os_mkdir_def split: sum.splits exn.splits if_splits)
  from stat_not_found_self [OF s] s f show ?thesis
    by (simp add: node_at_def)
qed

lemma os_mkdir_is_dir: "os_mkdir p fs = Inr fs' \<Longrightarrow> is_dir fs' p"
  using os_mkdir_Inr [of p fs fs'] node_at_update_same [of p fs Directory]
  by (simp add: is_dir_def)

lemma mkdir_single_is_dir: "mkdir_single ok p fs = Inr fs' \<Longrightarrow> is_dir fs' p"
  by (cases "os_mkdir p fs") (auto simp: mkdir_single_def split: if_splits dest: os_mkdir_is_dir)

lemma mkdir_parents_is_dir: "mkdir_parents ok p fs = Inr fs' \<Longrightarrow> is_dir fs' p"
proof (cases "os_mkdir p fs")
  case (Inr fs1)
  assume "mkdir_parents ok p fs = Inr fs'"
  with Inr have "fs' = fs1" by (simp add: mkdir_parents.simps [of ok p fs])
  with Inr show ?thesis by (simp add: os_mkdir_is_dir)
next
  case (Inl e)
  assume a: "mkdir_parents ok p fs = Inr fs'"
  show ?thesis
  proof (cases "\<exists>q. e = FileNotFoundError q")
    case True
    then obtain q where e: "e = FileNotFoundError q" by blast
    with a Inl obtain fs1 where "mkdir_single ok p fs1 = Inr fs'"
      by (auto simp: mkdir_parents.simps [of ok p fs] split: if_splits sum.splits)
    then show ?thesis by (rule mkdir_single_is_dir)
  next
    case False
    with a Inl have "is_dir fs p \<and> fs' = fs"
      by (cases e) (auto simp: mkdir_parents.simps [of ok p fs] split: if_splits)
    then show ?thesis by simp
  qed
qed

section \<open>The mirrored paths\<close>




lemma rglob_names:
  assumes "v \<in> set (rglob fs V (CHR ''*'' # ext))" "CHR ''*'' \<notin> set ext" "CHR ''?'' \<notin> set ext" "ext \<noteq> []"
  shows "\<exists>d stem. v = V @ d @ [stem @ ext]"
proof -
  from assms(1) have sp: "strict_prefix V v" and m: "fnmatch (CHR ''*'' # ext) (name_of v)"
    by (auto simp: rglob_def split: if_splits)
  from sp obtain r where r: "v = V @ r" "r \<noteq> []" by (auto simp: strict_prefix_def prefix_def)
  from m obtain stem where "name_of v = stem @ ext"
    using fnmatch_star_literal [OF assms(2,3)] by blast
  with r have "last r = stem @ ext" by (simp add: name_of_def)
  with r have "v = V @ butlast r @ [stem @ ext]"
    by (metis append_butlast_last_id)
  then show ?thesis by blast
qed

lemma audio_path_of_mp4:
  "audio_path_of V A (V @ d @ [stem @ ''.mp4'']) =
     Return (A @ d @ [(if stem = [] then ''.mp4'' else stem) @ ''.wav''])"
  using with_suffix_ext [of "''mp4''" "''wav''" d stem]
  by (simp add: audio_path_of_def relative_to_def)

lemma txt_path_of_wav:
  "txt_path_of A R (A @ d @ [stem @ ''.wav'']) =
     Return (R @ d @ [(if stem = [] then ''.wav'' else stem) @ ''.txt''])"
  using with_suffix_ext [of "''wav''" "''txt''" d stem]
  by (simp add: txt_path_of_def relative_to_def)

lemma video_target_Return:
  assumes "video_target V A v w = (Return ap, w1)"
  shows "audio_path_of V A v = Return ap \<and> is_dir (files w1) (parent ap)"
  using assms
  by (auto simp: video_target_def py_print_def emit_def
           split: outcome.splits sum.splits dest: mkdir_parents_is_dir)

lemma audio_target_Return:
  assumes "audio_target A R a w = (Return tp, w1)"
  shows "txt_path_of A R a = Return tp \<and> is_dir (files w1) (parent tp)"
  using assms
  by (auto simp: audio_target_def py_print_def emit_def
           split: outcome.splits sum.splits dest: mkdir_parents_is_dir)

text \<open>
  Claim C1 (directory mirroring), as the code has it. Every path that \<^verbatim>\<open>rglob\<close>
  yields for \<^verbatim>\<open>*.mp4\<close> (for \<^verbatim>\<open>*.wav\<close>) lies below the root and has a name
  ending in that extension. Its output path is the output root joined with the same
  relative directory and the name with \<^verbatim>\<open>.mp4\<close> replaced by \<^verbatim>\<open>.wav\<close>
  (\<^verbatim>\<open>.wav\<close> by \<^verbatim>\<open>.txt\<close>), except for a file named exactly \<^verbatim>\<open>.mp4\<close>
  (\<^verbatim>\<open>.wav\<close>), which \<^verbatim>\<open>with_suffix\<close> takes to have no suffix and to which the
  new extension is appended. When lines 112 to 116 (140 to 144) complete, the parent of
  the output path is a directory: it is made before \<^verbatim>\<open>extract_audio\<close>
  (\<^verbatim>\<open>transcribe_audio\<close>) is called.
\<close>

theorem directory_mirror:
  "(v \<in> set (rglob fs V ''*.mp4'') \<longrightarrow> (\<exists>d stem. v = V @ d @ [stem @ ''.mp4''])) \<and>
   (a \<in> set (rglob fs A ''*.wav'') \<longrightarrow> (\<exists>d stem. a = A @ d @ [stem @ ''.wav''])) \<and>
   audio_path_of V A (V @ d @ [stem @ ''.mp4'']) =
     Return (A @ d @ [(if stem = [] then ''.mp4'' else stem) @ ''.wav'']) \<and>
   txt_path_of A R (A @ d @ [stem @ ''.wav'']) =
     Return (R @ d @ [(if stem = [] then ''.wav'' else stem) @ ''.txt'']) \<and>
   (video_target V A v w = (Return ap, w1) \<longrightarrow>
      audio_path_of V A v = Return ap \<and> is_dir (files w1) (parent ap)) \<and>
   (audio_target A R a w = (Return tp, w2) \<longrightarrow>
      txt_path_of A R a = Return tp \<and> is_dir (files w2) (parent tp))"
proof -
  have "v \<in> set (rglob fs V ''*.mp4'') \<longrightarrow> (\<exists>d stem. v = V @ d @ [stem @ ''.mp4''])"
    using rglob_names [of v fs V "''.mp4''"] by simp
  moreover have "a \<in> set (rglob fs A ''*.wav'') \<longrightarrow> (\<exists>d stem. a = A @ d @ [stem @ ''.wav''])"
    using rglob_names [of a fs A "''.wav''"] by simp
  ultimately show ?thesis
    using audio_path_of_mp4 txt_path_of_wav video_target_Return audio_target_Return
    by blast
qed

lemma mirror_rglob: "rglob mirror_fs [''videos''] ''*.mp4'' = [[''videos'', ''sub'', ''b.mp4''], [''videos'', ''.mp4'']]"
  by code_simp




lemma mirror_video_target:
  "video_target [''videos''] [''audio''] [''videos'', ''sub'', ''b.mp4''] mirror_world =
     (Return [''audio'', ''sub'', ''b.wav''],
      \<lparr>files = mirror_fs,
       events = [Print [Lit (CHR 0x0A # ''Extracting audio from ''), Lit ''sub/b.mp4'', Lit ''...'']]\<rparr>)"
  by code_simp

lemma mirror_audio_target:
  "fst (audio_target [''audio''] [''results''] [''audio'', ''sub'', ''b.wav''] mirror_world) =
     Return [''results'', ''sub'', ''b.txt'']"
  by code_simp

lemma mirror_rglob_wav: "rglob mirror_fs [''audio''] ''*.wav'' = [[''audio'', ''sub'', ''b.wav'']]"
  by code_simp

theorem directory_mirror_witness:
  "[''videos'', ''sub'', ''b.mp4''] \<in> set (rglob mirror_fs [''videos''] ''*.mp4'') \<and>
   [''audio'', ''sub'', ''b.wav''] \<in> set (rglob mirror_fs [''audio''] ''*.wav'') \<and>
   audio_path_of [''videos''] [''audio''] [''videos'', ''sub'', ''b.mp4''] =
     Return [''audio'', ''sub'', ''b.wav''] \<and>
   txt_path_of [''audio''] [''results''] [''audio'', ''sub'', ''b.wav''] =
     Return [''results'', ''sub'', ''b.txt''] \<and>
   is_dir (files (snd (video_target [''videos''] [''audio''] [''videos'', ''sub'', ''b.mp4'']
                         mirror_world))) [''audio'', ''sub''] \<and>
   is_dir (files (snd (audio_target [''audio''] [''results''] [''audio'', ''sub'', ''b.wav'']
                         mirror_world))) [''results'', ''sub'']"
proof -
  obtain w2 where a: "audio_target [''audio''] [''results''] [''audio'', ''sub'', ''b.wav''] mirror_world =
      (Return [''results'', ''sub'', ''b.txt''], w2)"
    using mirror_audio_target by (metis prod.collapse)
  show ?thesis
    using directory_mirror [where v = "[''videos'', ''sub'', ''b.mp4'']" and fs = mirror_fs
        and V = "[''videos'']" and A = "[''audio'']" and R = "[''results'']"
        and a = "[''audio'', ''sub'', ''b.wav'']" and d = "[''sub'']" and stem = "''b''"
        and w = mirror_world and ap = "[''audio'', ''sub'', ''b.wav'']"
        and tp = "[''results'', ''sub'', ''b.txt'']" and ?w2.0 = w2
        and ?w1.0 = "\<lparr>files = mirror_fs,
           events = [Print [Lit (CHR 0x0A # ''Extracting audio from ''), Lit ''sub/b.mp4'', Lit ''...'']]\<rparr>"]
      mirror_video_target a mirror_rglob mirror_rglob_wav
    by (simp add: parent_def)
qed

text \<open>
  As stated, C1 fails for a video named \<^verbatim>\<open>.mp4\<close>: the enumeration yields it, and
  its audio path is \<^verbatim>\<open>audio/.mp4.wav\<close>, not \<^verbatim>\<open>audio/.wav\<close>.
\<close>

theorem directory_mirror_counterexample:
  "rglob mirror_fs videos_folder ''*.mp4'' = [[''videos'', ''sub'', ''b.mp4''], [''videos'', ''.mp4'']] \<and>
   audio_path_of videos_folder audio_folder [''videos'', ''.mp4''] = Return [''audio'', ''.mp4.wav''] \<and>
   [''audio'', ''.mp4.wav''] \<noteq> audio_folder @ [''.wav'']"
  by code_simp

section \<open>extract_audio: failures\<close>

lemma extract_audio_probe_blank:
  assumes "run_cmd env (probe_command v) (files w) = (Completed 0 out err, fs1)" "strip out = []"
  shows "extract_audio env v ap w =
     (Raise (ValueError (''Unable to read file information for '' @ str_path v)),
      \<lparr>files = fs1,
       events = events w @
         [Run (probe_command v),
          Print [Lit ''Error: '',
                 Str_exn (ValueError (''Unable to read file information for '' @ str_path v))]]\<rparr>)"
  using assms
  by (simp add: extract_audio_def subprocess_run_def extract_audio_except_def py_print_def emit_def)

lemma extract_audio_probe_nonzero:
  assumes "run_cmd env (probe_command v) (files w) = (Completed rc out err, fs1)" "rc \<noteq> 0"
  shows "extract_audio env v ap w =
     (Raise (CalledProcessError rc (probe_command v) out err),
      \<lparr>files = fs1,
       events = events w @
         [Run (probe_command v),
          Print [Lit ''Error extracting audio from '', Lit (str_path v)],
          Print [Lit ''Command: '', Lit (join '' '' (ffmpeg_command v ap))],
          Print [Lit ''Error output: '', Lit err]]\<rparr>)"
  using assms
  by (simp add: extract_audio_def subprocess_run_def extract_audio_except_def py_print_def emit_def)


lemma process_videos_loop_Raise_step:
  assumes "video_target V A v w0 = (Return ap, w)" "extract_audio env v ap w = (Raise e, w1)"
  shows "process_videos_loop env V A (v # rest) w0 =
         process_videos_loop env V A rest
           (py_print [Lit ''Error processing '', Lit (name_of v), Lit '': '', Str_exn e] w1)"
  using assms by (simp add: process_video_def)

text \<open>
  Claim C3. The progress lines of a loop iteration are done and \<open>extract_audio\<close> is
  entered in world \<open>w\<close>. If the duration probe prints nothing but whitespace (whatever
  its exit status), \<open>extract_audio\<close> raises; the file system is as the probe left it and
  the only command that ran is the probe, so the decode tool was never invoked and
  nothing was written at the audio path. \<open>process_videos\<close> prints the error for that
  file and goes on with the rest of the batch.
\<close>

theorem probe_blank_skips_file:
  assumes "video_target V A v w0 = (Return ap, w)"
    and "run_cmd env (probe_command v) (files w) = (Completed rc out err, fs1)"
    and "strip out = []"
    and "e = (if rc = 0 then ValueError (''Unable to read file information for '' @ str_path v)
              else CalledProcessError rc (probe_command v) out err)"
    and "w1 = \<lparr>files = fs1,
               events = events w @ Run (probe_command v) #
                 (if rc = 0 then [Print [Lit ''Error: '', Str_exn e]]
                  else [Print [Lit ''Error extracting audio from '', Lit (str_path v)],
                        Print [Lit ''Command: '', Lit (join '' '' (ffmpeg_command v ap))],
                        Print [Lit ''Error output: '', Lit err]])\<rparr>"
  shows "extract_audio env v ap w = (Raise e, w1) \<and>
         process_videos_loop env V A (v # rest) w0 =
           process_videos_loop env V A rest
             (py_print [Lit ''Error processing '', Lit (name_of v), Lit '': '', Str_exn e] w1)"
proof -
  have x: "extract_audio env v ap w = (Raise e, w1)"
  proof (cases "rc = 0")
    case True
    with assms show ?thesis using extract_audio_probe_blank [of env v w out err fs1 ap] by simp
  next
    case False
    with assms show ?thesis using extract_audio_probe_nonzero [of env v w rc out err fs1 ap] by simp
  qed
  with process_videos_loop_Raise_step [OF assms(1) x] show ?thesis by simp
qed


lemma extract_audio_except_fst: "fst (extract_audio_except v c e w) = Raise e"
  by (cases e) (simp_all add: extract_audio_except_def)











lemma demo_blank_target:
  "video_target videos_folder audio_folder [''videos'', ''blank.mp4''] demo_world =
     (Return [''audio'', ''blank.wav''],
      \<lparr>files = demo_fs,
       events = [Print [Lit (CHR 0x0A # ''Extracting audio from ''), Lit ''blank.mp4'', Lit ''...'']]\<rparr>)"
  by code_simp

lemma demo_blank_probe:
  "run_cmd demo_env (probe_command [''videos'', ''blank.mp4''])
     (files \<lparr>files = demo_fs,
       events = [Print [Lit (CHR 0x0A # ''Extracting audio from ''), Lit ''blank.mp4'', Lit ''...'']]
         :: nat event list\<rparr>) =
     (Completed 0 '' '' [], demo_fs)"
  by code_simp

lemma strip_blank: "strip '' '' = []"
  by code_simp

theorem probe_blank_skips_file_witness:
  "video_target videos_folder audio_folder [''videos'', ''blank.mp4''] demo_world =
     (Return [''audio'', ''blank.wav''],
      \<lparr>files = demo_fs,
       events = [Print [Lit (CHR 0x0A # ''Extracting audio from ''), Lit ''blank.mp4'', Lit ''...'']]\<rparr>) \<and>
   run_cmd demo_env (probe_command [''videos'', ''blank.mp4'']) demo_fs =
     (Completed 0 '' '' [], demo_fs) \<and>
   strip '' '' = [] \<and>
   extract_audio demo_env [''videos'', ''blank.mp4''] [''audio'', ''blank.wav'']
     \<lparr>files = demo_fs,
      events = [Print [Lit (CHR 0x0A # ''Extracting audio from ''), Lit ''blank.mp4'', Lit ''...'']]\<rparr> =
     (Raise (ValueError ''Unable to read file information for videos/blank.mp4''),
      \<lparr>files = demo_fs,
       events =
         [Print [Lit (CHR 0x0A # ''Extracting audio from ''), Lit ''blank.mp4'', Lit ''...''],
          Run (probe_command [''videos'', ''blank.mp4'']),
          Print [Lit ''Error: '',
                 Str_exn (ValueError ''Unable to read file information for videos/blank.mp4'')]]\<rparr>) \<and>
   process_videos_loop demo_env videos_folder audio_folder
       [[''videos'', ''blank.mp4''], [''videos'', ''a.mp4'']] demo_world =
     process_videos_loop demo_env videos_folder audio_folder [[''videos'', ''a.mp4'']]
       \<lparr>files = demo_fs,
        events =
         [Print [Lit (CHR 0x0A # ''Extracting audio from ''), Lit ''blank.mp4'', Lit ''...''],
          Run (probe_command [''videos'', ''blank.mp4'']),
          Print [Lit ''Error: '',
                 Str_exn (ValueError ''Unable to read file information for videos/blank.mp4'')],
          Print [Lit ''Error processing '', Lit ''blank.mp4'', Lit '': '',
                 Str_exn (ValueError ''Unable to read file information for videos/blank.mp4'')]]\<rparr>"
  using probe_blank_skips_file [OF demo_blank_target demo_blank_probe strip_blank refl refl,
      of "[[''videos'', ''a.mp4'']]"]
    demo_blank_target demo_blank_probe strip_blank
  by (simp add: py_print_def emit_def name_of_def str_path_def)

section \<open>Error classes of extract_audio; transcribe_audio\<close>









lemma transcribe_audio_Return: "fst (transcribe_audio env a t m w) = Return ()"
  by (simp add: transcribe_audio_def split: prod.splits outcome.splits)

lemma transcribe_audio_model_failure:
  "transcribe env m (str_path a) (files w) = Inl e \<Longrightarrow>
     transcribe_audio env a t m w =
       (Return (),
        \<lparr>files = files w,
         events = events w @
           [Transcribe m (str_path a), Print [Lit ''Error in transcribe_audio: '', Str_exn e]]\<rparr>)"
  by (simp add: transcribe_audio_def transcribe_audio_try_def py_print_def emit_def Let_def)

lemma process_audio_loop_step:
  "audio_target A R a w0 = (Return t, w) \<Longrightarrow>
     process_audio_loop env A R m (a # rest) w0 =
       process_audio_loop env A R m rest (snd (transcribe_audio env a t m w))"
  using transcribe_audio_Return [of env a t m w]
  by (cases "transcribe_audio env a t m w") (simp add: process_audio_file_def)

text \<open>
  Claim C6. \<open>transcribe_audio\<close> returns normally from every world, for every model
  and every pair of paths. When the model call raises, the exception is printed and
  the file system is untouched. Whatever \<open>transcribe_audio\<close> did, the loop of
  \<open>process_audio_files\<close> goes on with the remaining files. And when the transcript does
  not exist at the check of lines 84 to 88, that is printed and nothing is raised.
\<close>

theorem transcribe_audio_contains_failures:
  "fst (transcribe_audio env a t m w) = Return () \<and>
   (transcribe env m (str_path a) (files w) = Inl e \<longrightarrow>
      transcribe_audio env a t m w =
        (Return (),
         \<lparr>files = files w,
          events = events w @
            [Transcribe m (str_path a),
             Print [Lit ''Error in transcribe_audio: '', Str_exn e]]\<rparr>)) \<and>
   (audio_target A R a w0 = (Return t, w) \<longrightarrow>
      process_audio_loop env A R m (a # rest) w0 =
        process_audio_loop env A R m rest (snd (transcribe_audio env a t m w))) \<and>
   (\<not> exists (files w') t \<longrightarrow>
      report_transcript t w' =
        (Return (), py_print [Lit ''Error: Failed to create '', Lit (str_path t)] w'))"
  using transcribe_audio_Return [of env a t m w] transcribe_audio_model_failure [of env m a w e t]
    process_audio_loop_step [of A R a w0 t w env m rest]
  by (simp add: report_transcript_def)

lemma demo_audio_target:
  "audio_target audio_folder results_folder [''audio'', ''cut.wav''] demo_world =
     (Return [''results'', ''cut.txt''], demo_audio_world)"
  by code_simp

lemma demo_transcribe_fails:
  "transcribe demo_env 7 (str_path [''audio'', ''cut.wav'']) (files demo_audio_world) =
     Inl (OtherException ''cannot decode'')"
  by (simp add: demo_env_def demo_transcribe_def str_path_def)

lemma demo_no_transcript: "\<not> exists (files demo_world) [''results'', ''cut.txt'']"
  by code_simp

theorem transcribe_audio_contains_failures_witness:
  "transcribe demo_env 7 (str_path [''audio'', ''cut.wav'']) (files demo_audio_world) =
     Inl (OtherException ''cannot decode'') \<and>
   audio_target audio_folder results_folder [''audio'', ''cut.wav''] demo_world =
     (Return [''results'', ''cut.txt''], demo_audio_world) \<and>
   \<not> exists (files demo_world) [''results'', ''cut.txt''] \<and>
   transcribe_audio demo_env [''audio'', ''cut.wav''] [''results'', ''cut.txt''] 7 demo_audio_world =
     (Return (),
      \<lparr>files = files demo_audio_world,
       events = events demo_audio_world @
         [Transcribe 7 (str_path [''audio'', ''cut.wav'']),
          Print [Lit ''Error in transcribe_audio: '', Str_exn (OtherException ''cannot decode'')]]\<rparr>) \<and>
   process_audio_loop demo_env audio_folder results_folder 7
       [[''audio'', ''cut.wav''], [''audio'', ''old.wav'']] demo_world =
     process_audio_loop demo_env audio_folder results_folder 7 [[''audio'', ''old.wav'']]
       (snd (transcribe_audio demo_env [''audio'', ''cut.wav''] [''results'', ''cut.txt''] 7
               demo_audio_world)) \<and>
   report_transcript [''results'', ''cut.txt''] demo_world =
     (Return (),
      py_print [Lit ''Error: Failed to create '', Lit (str_path [''results'', ''cut.txt''])]
        demo_world)"
  using transcribe_audio_contains_failures [of demo_env "[''audio'', ''cut.wav'']"
      "[''results'', ''cut.txt'']" 7 demo_audio_world "OtherException ''cannot decode''"
      audio_folder results_folder demo_world "[[''audio'', ''old.wav'']]" demo_world]
    demo_audio_target demo_transcribe_fails demo_no_transcript
  by simp

section \<open>The events of each function\<close>

lemma appends_refl: "appends P w w"
  by (simp add: appends_def)


lemma appends_trans: "appends P w w1 \<Longrightarrow> appends P w1 w2 \<Longrightarrow> appends P w w2"
  by (auto simp: appends_def)

lemma appends_mono: "appends P w w' \<Longrightarrow> (\<And>ev. P ev \<Longrightarrow> Q ev) \<Longrightarrow> appends Q w w'"
  by (auto simp: appends_def list_all_iff)

lemma appends_emit: "P ev \<Longrightarrow> appends P w (emit ev w)"
  by (simp add: appends_def emit_def)

lemma appends_print: "P (Print line) \<Longrightarrow> appends P w (py_print line w)"
  by (simp add: py_print_def appends_emit)

lemma appends_files: "appends P w (w\<lparr>files := fs\<rparr>)"
  by (simp add: appends_def)

lemma appends_set: "appends P w w' \<Longrightarrow> set (events w) \<subseteq> set (events w')"
  by (auto simp: appends_def)



















section \<open>Selection of the files\<close>






lemma demo_rglob_wav: "rglob demo_fs audio_folder ''*.wav'' = [[''audio'', ''old.wav'']]"
  by code_simp






section \<open>The events of main\<close>






lemma appends2_appends: "appends2 P Q w w1 \<Longrightarrow> appends Q w1 w2 \<Longrightarrow> appends2 P Q w w2"
  unfolding appends_def appends2_def
  by (metis append.assoc list_all_append)





lemma report_loop_appends: "appends is_print w (snd (report_loop R ts w))"
proof (induction ts arbitrary: w)
  case Nil
  show ?case by (simp add: appends_refl)
next
  case (Cons t ts)
  show ?case
  proof (cases "relative_to t R")
    case (Raise e)
    then show ?thesis by (simp add: appends_refl)
  next
    case (Return rel)
    show ?thesis
    proof (cases "st_size (files w) t")
      case (Inl e)
      with Return show ?thesis by (simp add: appends_refl)
    next
      case (Inr n)
      have "appends is_print w (py_print [Lit ''- '', Lit (str_path rel), Lit '' (Size: '', Num n,
                            Lit '' bytes)''] w)"
        by (rule appends_print) simp
      with Return Inr Cons.IH show ?thesis
        by (auto intro: appends_trans)
    qed
  qed
qed

lemma check_results_appends:
  assumes "\<And>line. P (Print line)" "P (Rglob R ''*.txt'')"
  shows "appends P w (snd (check_results R w))"
proof -
  have p: "\<And>ev. is_print ev \<Longrightarrow> P ev"
    subgoal for ev using assms(1) by (cases ev) simp_all
    done
  have "appends P w (emit (Rglob R ''*.txt'') w)"
    by (rule appends_emit) (rule assms(2))
  moreover have "\<And>w1 line. appends P w1 (py_print line w1)"
    by (rule appends_print) (rule assms(1))
  moreover have "\<And>w1 ts. appends P w1 (snd (report_loop R ts w1))"
    by (rule appends_mono [OF report_loop_appends]) (rule p)
  ultimately show ?thesis
    unfolding check_results_def Let_def
    by (blast intro: appends_trans)
qed



section \<open>Mode selection\<close>



lemma check_results_appends_not_transcription:
  "appends (\<lambda>ev. \<not> transcription_step ev) w (snd (check_results results_folder w))"
  by (rule check_results_appends)
     (simp_all add: transcription_step_def results_folder_def audio_folder_def)








lemma appends_True: "appends (\<lambda>ev. True) w w' \<longleftrightarrow> prefix (events w) (events w')"
  by (auto simp: appends_def prefix_def list_all_iff)







section \<open>The model handle\<close>















section \<open>Audio found before the run\<close>
















end
